theory Spec2Isabelle
  imports Main "HOL-Library.Sublist"
begin

section \<open>The tier table\<close>

text \<open>
  \<^verbatim>\<open>restore_session.py\<close> is a script: a module-level dictionary literal \<^verbatim>\<open>structure\<close>,
  a file name, one \<^verbatim>\<open>with zipfile.ZipFile(zip_filename, 'w')\<close> block holding two nested
  \<^verbatim>\<open>for\<close> loops, and a final \<^verbatim>\<open>print\<close>.

  A Python dictionary iterates in insertion order, and the loop reads it through
  \<^verbatim>\<open>structure.items()\<close>, so the table is an association list: tier name, then the
  tier's folder names in list order. The literal has no repeated key.
\<close>

type_synonym tier_table = "(string \<times> string list) list"

definition structure_tbl :: tier_table where
  "structure_tbl =
    [(''S'',
      [''Learn Earn'', ''Productivity'', ''Outreach Playbook'', ''Motivation'', ''Flow'',
       ''The Grand Slam Offer'', ''Business Research'', ''Financial Urgent'', ''Work'', ''Finances'']),
     (''A'',
      [''Next-Level Acceleration'', ''Tech Projects'', ''Game Development'', ''Lead Generation'',
       ''Research'', ''Relationship'', ''Content Creation'']),
     (''B'',
      [''Website'', ''Domain Acquisition'', ''Podcasting'', ''BrandKit'', ''Productized Service'',
       ''Household & Maintenance'', ''Funnel & Tracking'', ''Health & Wellness'', ''Community Building'',
       ''Operations'', ''Personal Branding'', ''Reflection'', ''Personal Events'', ''Product Development'']),
     (''C'',
      [''Fitness'', ''Wellness'', ''Streaming Setup'', ''App Mafia'', ''Lightmark.ai'',
       ''Social Media'', ''Code'', ''Luma Event'', ''Dental & Medical'', ''SEO'',
       ''Indiehacking'', ''Design'', ''SelfCare'', ''Content Strategy'']),
     (''D'',
      [''Travel'', ''Content Curation'', ''Improv Setup'', ''Townhall'']),
     (''F'',
      [''None'', ''Shopping & Errands'', ''NS Projects & Social'', ''Content Consumption'',
       ''Leisure'', ''Ns''])]"

definition zip_filename :: string where
  "zip_filename = ''restored_flowlist.zip''"

text \<open>The f-string \<^verbatim>\<open>f"{tier}/{folder}.txt"\<close> of two strings is their concatenation
  around the separator and the suffix.\<close>

definition path :: "string \<Rightarrow> string \<Rightarrow> string" where
  "path tier folder = tier @ ''/'' @ folder @ ''.txt''"

text \<open>The second argument of every \<^verbatim>\<open>zf.writestr\<close> call.\<close>

definition placeholder :: string where
  "placeholder = ''- [ ] Placeholder task''"

section \<open>The archive, the file system and the faults of the run\<close>

text \<open>
  An archive is the sequence of its members in the order they were written, each a name
  and its data, with a flag that says whether the central directory has been written
  (the archive was closed). \<^verbatim>\<open>writestr\<close> encodes a \<^verbatim>\<open>str\<close> as UTF-8; the names and
  the data of this script are ASCII, so the stored bytes are the characters themselves.
  Time stamps and the other header fields of a member are not modelled.
\<close>

type_synonym entry = "string \<times> string"

record zip_file =
  entries :: "entry list"
  finalized :: bool

text \<open>The world the script acts on: the files by name, and the lines printed so far.\<close>

record world =
  files :: "string \<rightharpoonup> zip_file"
  stdout :: "string list"

text \<open>
  What the operating system lets the run do. The script takes no argument and reads
  nothing, so this is the only thing, besides the world it starts in, that differs
  from run to run: whether the destination can be opened for writing, whether the
  write that would add member number \<open>n\<close> (counted from 0) goes through, and whether
  closing the archive goes through.
\<close>

record io_env =
  open_ok :: "string \<Rightarrow> bool"
  write_ok :: "nat \<Rightarrow> bool"
  close_ok :: bool

text \<open>The script catches nothing: any \<^verbatim>\<open>OSError\<close> of the library ends the run.\<close>

datatype error = IOFailure

text \<open>\<^verbatim>\<open>zipfile.ZipFile(name, 'w')\<close>: mode \<^verbatim>\<open>'w'\<close> truncates, the new archive is empty.\<close>

definition ZipFile_w :: "io_env \<Rightarrow> string \<Rightarrow> error + zip_file" where
  "ZipFile_w env name =
     (if open_ok env name then Inr \<lparr>entries = [], finalized = False\<rparr> else Inl IOFailure)"

text \<open>\<^verbatim>\<open>zf.writestr(name, data)\<close> appends one member, or raises.\<close>

definition writestr :: "io_env \<Rightarrow> zip_file \<Rightarrow> string \<Rightarrow> string \<Rightarrow> error + zip_file" where
  "writestr env zf name data =
     (if write_ok env (length (entries zf))
      then Inr (zf\<lparr>entries := entries zf @ [(name, data)]\<rparr>)
      else Inl IOFailure)"

section \<open>The two loops\<close>

text \<open>
  The inner loop, \<^verbatim>\<open>for folder in folders\<close>. An exception leaves the loop at once; the
  archive handle keeps what was written before it, which is what the \<^verbatim>\<open>with\<close> block
  closes on the way out. So the loop returns the handle together with the exception,
  if any.
\<close>

fun write_folders :: "io_env \<Rightarrow> string \<Rightarrow> string list \<Rightarrow> zip_file \<Rightarrow> zip_file \<times> error option" where
  "write_folders env tier [] zf = (zf, None)"
| "write_folders env tier (folder # folders) zf =
     (case writestr env zf (path tier folder) placeholder of
        Inl e \<Rightarrow> (zf, Some e)
      | Inr zf' \<Rightarrow> write_folders env tier folders zf')"

text \<open>The outer loop, \<^verbatim>\<open>for tier, folders in structure.items()\<close>.\<close>

fun write_tiers :: "io_env \<Rightarrow> tier_table \<Rightarrow> zip_file \<Rightarrow> zip_file \<times> error option" where
  "write_tiers env [] zf = (zf, None)"
| "write_tiers env ((tier, folders) # rest) zf =
     (case write_folders env tier folders zf of
        (zf', Some e) \<Rightarrow> (zf', Some e)
      | (zf', None) \<Rightarrow> write_tiers env rest zf')"

section \<open>The script\<close>

text \<open>
  \<^verbatim>\<open>with zipfile.ZipFile(name, 'w') as zf: ...\<close> followed by \<^verbatim>\<open>print\<close>, for any table
  and file name.
  \<^item> When the constructor raises, the body does not run and nothing is printed.
  \<^item> When a write raises, \<^verbatim>\<open>__exit__\<close> closes the handle and the exception goes on:
    the file holds the members written so far, closed if closing went through, and
    nothing is printed.
  \<^item> When the body ends normally, \<^verbatim>\<open>__exit__\<close> closes the handle; if that raises,
    nothing is printed; otherwise the line is printed.
\<close>

definition build :: "io_env \<Rightarrow> tier_table \<Rightarrow> string \<Rightarrow> world \<Rightarrow> world \<times> error option" where
  "build env tbl name w =
     (case ZipFile_w env name of
        Inl e \<Rightarrow> (w, Some e)
      | Inr zf \<Rightarrow>
          (case write_tiers env tbl zf of
             (zf', Some e) \<Rightarrow>
               (w\<lparr>files := (files w)(name \<mapsto> zf'\<lparr>finalized := close_ok env\<rparr>)\<rparr>, Some e)
           | (zf', None) \<Rightarrow>
               if close_ok env
               then (w\<lparr>files := (files w)(name \<mapsto> zf'\<lparr>finalized := True\<rparr>),
                       stdout := stdout w @ [''Created '' @ name]\<rparr>, None)
               else (w\<lparr>files := (files w)(name \<mapsto> zf')\<rparr>, Some IOFailure)))"

text \<open>The script itself: the table and the file name are its two module-level values.\<close>

definition restore_session :: "io_env \<Rightarrow> world \<Rightarrow> world \<times> error option" where
  "restore_session env w = build env structure_tbl zip_filename w"

text \<open>
  Reading a member back, \<^verbatim>\<open>zipfile.ZipFile(name).read(member)\<close>. An archive whose
  central directory was never written cannot be opened for reading (the library raises
  \<^verbatim>\<open>BadZipFile\<close>), and a name that is not in the archive raises \<^verbatim>\<open>KeyError\<close>; both
  are \<open>None\<close> here. The library keeps a dictionary from names to members, so of two
  members with one name the later one is read.
\<close>

definition read_entry :: "zip_file \<Rightarrow> string \<Rightarrow> string option" where
  "read_entry zf name = (if finalized zf then map_of (rev (entries zf)) name else None)"

text \<open>A run where nothing fails, from an empty world.\<close>

definition ok_env :: io_env where
  "ok_env = \<lparr>open_ok = (\<lambda>_. True), write_ok = (\<lambda>_. True), close_ok = True\<rparr>"

definition empty_world :: world where
  "empty_world = \<lparr>files = Map.empty, stdout = []\<rparr>"

text \<open>A run whose destination cannot be opened, and one where the fourth write fails.\<close>

definition no_open_env :: io_env where
  "no_open_env = \<lparr>open_ok = (\<lambda>_. False), write_ok = (\<lambda>_. True), close_ok = True\<rparr>"

definition disk_full_env :: io_env where
  "disk_full_env = \<lparr>open_ok = (\<lambda>_. True), write_ok = (\<lambda>n. n < 3), close_ok = True\<rparr>"

section \<open>What the loops write\<close>

text \<open>The (tier, folder) pairs of a table, tier by tier, and the member each one gives.\<close>

definition pairs :: "tier_table \<Rightarrow> (string \<times> string) list" where
  "pairs tbl = concat (map (\<lambda>(tier, folders). map (Pair tier) folders) tbl)"

definition entry_of :: "string \<times> string \<Rightarrow> entry" where
  "entry_of p = (path (fst p) (snd p), placeholder)"

text \<open>What a run that nothing interrupts writes, in order.\<close>

definition written :: "tier_table \<Rightarrow> entry list" where
  "written tbl = map entry_of (pairs tbl)"

lemma pairs_Nil: "pairs [] = []"
  by (simp add: pairs_def)

lemma pairs_Cons: "pairs ((tier, folders) # rest) = map (Pair tier) folders @ pairs rest"
  by (simp add: pairs_def)

lemma written_Nil: "written [] = []"
  by (simp add: written_def pairs_Nil)

lemma written_Cons:
  "written ((tier, folders) # rest) =
     map (\<lambda>folder. (path tier folder, placeholder)) folders @ written rest"
  by (simp add: written_def pairs_Cons entry_of_def comp_def)

lemma length_written: "length (written tbl) = length (pairs tbl)"
  by (simp add: written_def)

lemma length_pairs: "length (pairs tbl) = sum_list (map (length \<circ> snd) tbl)"
  by (induction tbl) (auto simp: pairs_Nil pairs_Cons)

lemma set_pairs: "set (pairs tbl) = {(tier, folder). \<exists>folders. (tier, folders) \<in> set tbl \<and> folder \<in> set folders}"
  by (auto simp: pairs_def)

lemma writestr_Inr:
  "writestr env zf n d = Inr zf' \<Longrightarrow>
     write_ok env (length (entries zf)) \<and> entries zf' = entries zf @ [(n, d)]
       \<and> finalized zf' = finalized zf"
  by (auto simp: writestr_def split: if_splits)

lemma writestr_Inl: "writestr env zf n d = Inl e \<Longrightarrow> \<not> write_ok env (length (entries zf))"
  by (auto simp: writestr_def split: if_splits)

text \<open>
  The inner loop stops after some number \<open>k\<close> of folders: those \<open>k\<close> writes went
  through and their members follow what the handle held; the loop ends normally only
  with \<open>k\<close> the whole list, and otherwise write number \<open>k\<close> is the one that failed.
\<close>

lemma write_folders_prefix:
  "write_folders env tier fs zf = (zf', r) \<Longrightarrow>
     \<exists>k \<le> length fs.
        entries zf' = entries zf @ map (\<lambda>f. (path tier f, placeholder)) (take k fs)
        \<and> finalized zf' = finalized zf
        \<and> (r = None \<longrightarrow> k = length fs)
        \<and> (\<forall>i < k. write_ok env (length (entries zf) + i))
        \<and> (r \<noteq> None \<longrightarrow> k < length fs \<and> \<not> write_ok env (length (entries zf) + k))"
proof (induction fs arbitrary: zf)
  case Nil
  then show ?case by auto
next
  case (Cons f fs)
  show ?case
  proof (cases "writestr env zf (path tier f) placeholder")
    case (Inl e)
    with Cons.prems have "zf' = zf" "r = Some e" by auto
    moreover from Inl have "\<not> write_ok env (length (entries zf))"
      by (rule writestr_Inl)
    ultimately show ?thesis by (intro exI[of _ 0]) auto
  next
    case (Inr z)
    with Cons.prems have "write_folders env tier fs z = (zf', r)" by simp
    from Cons.IH[OF this] obtain k where k: "k \<le> length fs"
      "entries zf' = entries z @ map (\<lambda>f. (path tier f, placeholder)) (take k fs)"
      "finalized zf' = finalized z" "r = None \<longrightarrow> k = length fs"
      "\<forall>i < k. write_ok env (length (entries z) + i)"
      "r \<noteq> None \<longrightarrow> k < length fs \<and> \<not> write_ok env (length (entries z) + k)" by blast
    note z = writestr_Inr[OF Inr]
    have "\<forall>i < Suc k. write_ok env (length (entries zf) + i)"
    proof (intro allI impI)
      fix i assume "i < Suc k"
      show "write_ok env (length (entries zf) + i)"
      proof (cases i)
        case 0 then show ?thesis using z by simp
      next
        case (Suc j)
        with \<open>i < Suc k\<close> have "j < k" by simp
        with k(5) have "write_ok env (length (entries z) + j)" by blast
        then show ?thesis using z Suc by simp
      qed
    qed
    with k z show ?thesis by (intro exI[of _ "Suc k"]) auto
  qed
qed

text \<open>The same for the outer loop, counted in members over the whole table.\<close>

lemma write_tiers_prefix:
  "write_tiers env tbl zf = (zf', r) \<Longrightarrow>
     \<exists>k \<le> length (written tbl).
        entries zf' = entries zf @ take k (written tbl)
        \<and> finalized zf' = finalized zf
        \<and> (r = None \<longrightarrow> k = length (written tbl))
        \<and> (\<forall>i < k. write_ok env (length (entries zf) + i))
        \<and> (r \<noteq> None \<longrightarrow> k < length (written tbl) \<and> \<not> write_ok env (length (entries zf) + k))"
proof (induction tbl arbitrary: zf)
  case Nil
  then show ?case by (auto simp: written_Nil)
next
  case (Cons a rest)
  obtain tier folders where a: "a = (tier, folders)" by (cases a)
  obtain z r1 where inner: "write_folders env tier folders zf = (z, r1)"
    by (cases "write_folders env tier folders zf")
  let ?A = "map (\<lambda>f. (path tier f, placeholder)) folders"
  from write_folders_prefix[OF inner] obtain k where k: "k \<le> length folders"
      "entries z = entries zf @ map (\<lambda>f. (path tier f, placeholder)) (take k folders)"
      "finalized z = finalized zf" "r1 = None \<longrightarrow> k = length folders"
      "\<forall>i < k. write_ok env (length (entries zf) + i)"
      "r1 \<noteq> None \<longrightarrow> k < length folders \<and> \<not> write_ok env (length (entries zf) + k)" by blast
  show ?case
  proof (cases r1)
    case (Some e)
    with Cons.prems a inner have eq: "zf' = z" "r = Some e" by auto
    have "take k (written (a # rest)) = map (\<lambda>f. (path tier f, placeholder)) (take k folders)"
      using k(1) by (simp add: a written_Cons take_map)
    with k Some eq show ?thesis
      by (intro exI[of _ k]) (auto simp: a written_Cons)
  next
    case None
    with Cons.prems a inner have "write_tiers env rest z = (zf', r)" by simp
    from Cons.IH[OF this] obtain j where j: "j \<le> length (written rest)"
      "entries zf' = entries z @ take j (written rest)"
      "finalized zf' = finalized z" "r = None \<longrightarrow> j = length (written rest)"
      "\<forall>i < j. write_ok env (length (entries z) + i)"
      "r \<noteq> None \<longrightarrow> j < length (written rest) \<and> \<not> write_ok env (length (entries z) + j)" by blast
    from None k have kl: "k = length folders" by simp
    then have ez: "entries z = entries zf @ ?A" using k(2) by simp
    have ok: "\<forall>i < length folders + j. write_ok env (length (entries zf) + i)"
    proof (intro allI impI)
      fix i assume i: "i < length folders + j"
      show "write_ok env (length (entries zf) + i)"
      proof (cases "i < length folders")
        case True then show ?thesis using k(5) kl by simp
      next
        case False
        then have "i - length folders < j" using i by simp
        with j(5) have "write_ok env (length (entries z) + (i - length folders))" by blast
        then show ?thesis using False ez by simp
      qed
    qed
    show ?thesis using j ok ez k(3)
      by (intro exI[of _ "length folders + j"]) (auto simp: a written_Cons add.assoc)
  qed
qed

lemma write_tiers_ok:
  assumes "write_tiers env tbl zf = (zf', None)"
  shows "entries zf' = entries zf @ written tbl" and "finalized zf' = finalized zf"
  using write_tiers_prefix[OF assms] by auto

lemma write_tiers_all_ok:
  assumes "\<forall>i < length (written tbl). write_ok env (length (entries zf) + i)"
  shows "snd (write_tiers env tbl zf) = None"
proof (cases "write_tiers env tbl zf")
  case (Pair zf' r)
  from write_tiers_prefix[OF Pair] assms show ?thesis using Pair by auto
qed

section \<open>The script as a whole\<close>

lemma error_is_IOFailure: "(e::error) = IOFailure"
  by (cases e)

lemma build_open_fails:
  "\<not> open_ok env name \<Longrightarrow> build env tbl name w = (w, Some IOFailure)"
  by (simp add: build_def ZipFile_w_def)

lemma build_ok:
  assumes "snd (build env tbl name w) = None"
  shows "fst (build env tbl name w) =
           w\<lparr>files := (files w)(name \<mapsto> \<lparr>entries = written tbl, finalized = True\<rparr>),
              stdout := stdout w @ [''Created '' @ name]\<rparr>"
    and "open_ok env name" and "close_ok env" and "\<forall>i < length (written tbl). write_ok env i"
proof -
  show o: "open_ok env name"
    using assms build_open_fails[of env name tbl w] by (cases "open_ok env name") auto
  let ?z0 = "\<lparr>entries = [], finalized = False\<rparr>"
  obtain z r where wt: "write_tiers env tbl ?z0 = (z, r)"
    by (cases "write_tiers env tbl ?z0")
  from assms o wt have r: "r = None"
    by (cases r) (auto simp: build_def ZipFile_w_def)
  from assms o wt r show c: "close_ok env"
    by (cases "close_ok env") (auto simp: build_def ZipFile_w_def)
  from write_tiers_prefix[OF wt] r
  have z: "entries z = written tbl" "finalized z = False" and ok: "\<forall>i < length (written tbl). write_ok env i"
    by auto
  from ok show "\<forall>i < length (written tbl). write_ok env i" .
  have "z\<lparr>finalized := True\<rparr> = \<lparr>entries = written tbl, finalized = True\<rparr>"
    using z by simp
  with o wt r c show "fst (build env tbl name w) =
           w\<lparr>files := (files w)(name \<mapsto> \<lparr>entries = written tbl, finalized = True\<rparr>),
              stdout := stdout w @ [''Created '' @ name]\<rparr>"
    by (simp add: build_def ZipFile_w_def)
qed

lemma build_ok_iff:
  "snd (build env tbl name w) = None \<longleftrightarrow>
     open_ok env name \<and> (\<forall>i < length (written tbl). write_ok env i) \<and> close_ok env"
proof
  assume "snd (build env tbl name w) = None"
  from build_ok(2-4)[OF this] show "open_ok env name \<and> (\<forall>i < length (written tbl). write_ok env i) \<and> close_ok env"
    by blast
next
  assume a: "open_ok env name \<and> (\<forall>i < length (written tbl). write_ok env i) \<and> close_ok env"
  let ?z0 = "\<lparr>entries = [], finalized = False\<rparr>"
  have "snd (write_tiers env tbl ?z0) = None"
    using a by (intro write_tiers_all_ok) simp
  then obtain z where "write_tiers env tbl ?z0 = (z, None)"
    by (cases "write_tiers env tbl ?z0") auto
  with a show "snd (build env tbl name w) = None"
    by (simp add: build_def ZipFile_w_def)
qed

section \<open>The table of the script, evaluated\<close>

lemma names_structure_tbl:
  "map fst (written structure_tbl) =
    [''S/Learn Earn.txt'', ''S/Productivity.txt'', ''S/Outreach Playbook.txt'',
     ''S/Motivation.txt'', ''S/Flow.txt'', ''S/The Grand Slam Offer.txt'',
     ''S/Business Research.txt'', ''S/Financial Urgent.txt'', ''S/Work.txt'',
     ''S/Finances.txt'', ''A/Next-Level Acceleration.txt'', ''A/Tech Projects.txt'',
     ''A/Game Development.txt'', ''A/Lead Generation.txt'', ''A/Research.txt'',
     ''A/Relationship.txt'', ''A/Content Creation.txt'', ''B/Website.txt'',
     ''B/Domain Acquisition.txt'', ''B/Podcasting.txt'', ''B/BrandKit.txt'',
     ''B/Productized Service.txt'', ''B/Household & Maintenance.txt'',
     ''B/Funnel & Tracking.txt'', ''B/Health & Wellness.txt'', ''B/Community Building.txt'',
     ''B/Operations.txt'', ''B/Personal Branding.txt'', ''B/Reflection.txt'',
     ''B/Personal Events.txt'', ''B/Product Development.txt'', ''C/Fitness.txt'',
     ''C/Wellness.txt'', ''C/Streaming Setup.txt'', ''C/App Mafia.txt'',
     ''C/Lightmark.ai.txt'', ''C/Social Media.txt'', ''C/Code.txt'', ''C/Luma Event.txt'',
     ''C/Dental & Medical.txt'', ''C/SEO.txt'', ''C/Indiehacking.txt'', ''C/Design.txt'',
     ''C/SelfCare.txt'', ''C/Content Strategy.txt'', ''D/Travel.txt'',
     ''D/Content Curation.txt'', ''D/Improv Setup.txt'', ''D/Townhall.txt'', ''F/None.txt'',
     ''F/Shopping & Errands.txt'', ''F/NS Projects & Social.txt'',
     ''F/Content Consumption.txt'', ''F/Leisure.txt'', ''F/Ns.txt'']"
  by (simp add: written_def pairs_def structure_tbl_def entry_of_def path_def)

lemma data_written: "e \<in> set (written tbl) \<Longrightarrow> snd e = placeholder"
  by (auto simp: written_def entry_of_def)

lemma length_pairs_structure_tbl: "length (pairs structure_tbl) = 55"
  by (simp add: pairs_def structure_tbl_def)

lemma distinct_names_structure_tbl: "distinct (map fst (written structure_tbl))"
  unfolding names_structure_tbl by simp

lemma ok_run: "snd (restore_session ok_env empty_world) = None"
  by (simp add: restore_session_def build_ok_iff ok_env_def)

lemma ok_run_eval: "restore_session ok_env empty_world =
   (\<lparr>files = [zip_filename \<mapsto> \<lparr>entries = written structure_tbl, finalized = True\<rparr>],
     stdout = [''Created restored_flowlist.zip'']\<rparr>, None)"
  by (simp add: restore_session_def build_def ZipFile_w_def ok_env_def empty_world_def
        structure_tbl_def writestr_def written_def pairs_def entry_of_def zip_filename_def)

lemma restore_session_ok:
  assumes "snd (restore_session env w) = None"
  shows "fst (restore_session env w) =
           w\<lparr>files := (files w)(zip_filename \<mapsto> \<lparr>entries = written structure_tbl, finalized = True\<rparr>),
              stdout := stdout w @ [''Created '' @ zip_filename]\<rparr>"
  using assms unfolding restore_session_def by (rule build_ok(1))

lemma written_concat:
  "written tbl =
     concat (map (\<lambda>(tier, folders).
        map (\<lambda>folder. (tier @ ''/'' @ folder @ ''.txt'', ''- [ ] Placeholder task'')) folders) tbl)"
  by (induction tbl) (auto simp: written_Nil written_Cons path_def placeholder_def)

lemma names_written:
  "map fst (written tbl) = map (\<lambda>(tier, folder). tier @ ''/'' @ folder @ ''.txt'') (pairs tbl)"
  by (simp add: written_def entry_of_def path_def case_prod_beta comp_def)

lemma write_tiers_finalized: "finalized (fst (write_tiers env tbl zf)) = finalized zf"
proof (cases "write_tiers env tbl zf")
  case (Pair z r)
  from write_tiers_prefix[OF Pair] show ?thesis using Pair by auto
qed

lemma write_tiers_is_prefix:
  "prefix (entries (fst (write_tiers env tbl \<lparr>entries = [], finalized = False\<rparr>))) (written tbl)"
proof (cases "write_tiers env tbl \<lparr>entries = [], finalized = False\<rparr>")
  case (Pair z r)
  from write_tiers_prefix[OF Pair] obtain k where "entries z = take k (written tbl)" by auto
  then show ?thesis using Pair by (simp add: take_is_prefix)
qed

lemma build_files:
  assumes "open_ok env name"
  shows "files (fst (build env tbl name w)) =
           (files w)(name \<mapsto>
              (fst (write_tiers env tbl \<lparr>entries = [], finalized = False\<rparr>))\<lparr>finalized := close_ok env\<rparr>)"
proof -
  let ?z0 = "\<lparr>entries = [], finalized = False\<rparr>"
  obtain z r where wt: "write_tiers env tbl ?z0 = (z, r)"
    by (cases "write_tiers env tbl ?z0")
  have fz: "finalized z = False"
    using write_tiers_finalized[of env tbl ?z0] wt by simp
  show ?thesis
  proof (cases r)
    case None
    show ?thesis
    proof (cases "close_ok env")
      case True
      with assms wt None show ?thesis by (simp add: build_def ZipFile_w_def)
    next
      case False
      have "z\<lparr>finalized := False\<rparr> = z" using fz by simp
      with False assms wt None show ?thesis by (simp add: build_def ZipFile_w_def)
    qed
  next
    case (Some e)
    with assms wt show ?thesis by (simp add: build_def ZipFile_w_def)
  qed
qed

lemma build_stdout:
  "stdout (fst (build env tbl name w)) =
     (if snd (build env tbl name w) = None then stdout w @ [''Created '' @ name] else stdout w)"
proof (cases "open_ok env name")
  case False
  then show ?thesis by (simp add: build_open_fails)
next
  case True
  let ?z0 = "\<lparr>entries = [], finalized = False\<rparr>"
  obtain z r where wt: "write_tiers env tbl ?z0 = (z, r)"
    by (cases "write_tiers env tbl ?z0")
  show ?thesis
  proof (cases r)
    case None
    with True wt show ?thesis by (cases "close_ok env") (simp_all add: build_def ZipFile_w_def)
  next
    case (Some e)
    with True wt show ?thesis by (simp add: build_def ZipFile_w_def)
  qed
qed

lemma build_error: "snd (build env tbl name w) \<noteq> None \<Longrightarrow> snd (build env tbl name w) = Some IOFailure"
  by (cases "snd (build env tbl name w)") (simp_all add: error_is_IOFailure)

text \<open>Reading back from an archive whose members all hold the placeholder.\<close>

lemma read_entry_placeholder:
  assumes all: "\<forall>e \<in> set (entries zf). snd e = placeholder" and e: "e \<in> set (entries zf)"
    and fin: "finalized zf"
  shows "read_entry zf (fst e) = Some placeholder"
proof -
  have "fst e \<in> fst ` set (rev (entries zf))" using e by simp
  then have "map_of (rev (entries zf)) (fst e) \<noteq> None"
    by (simp only: map_of_eq_None_iff not_not)
  then obtain v where v: "map_of (rev (entries zf)) (fst e) = Some v" by blast
  then have "(fst e, v) \<in> set (rev (entries zf))" by (rule map_of_SomeD)
  then have "(fst e, v) \<in> set (entries zf)" by simp
  with all have "snd (fst e, v) = placeholder" by (rule bspec)
  then have "v = placeholder" by simp
  with v fin show ?thesis by (simp add: read_entry_def)
qed

lemma read_entry_not_finalized: "\<not> finalized zf \<Longrightarrow> read_entry zf name = None"
  by (simp add: read_entry_def)

lemma inj_on_pair_path: "inj_on (fst \<circ> entry_of) (set (pairs structure_tbl))"
  and distinct_pairs_structure_tbl: "distinct (pairs structure_tbl)"
proof -
  have "distinct (map (fst \<circ> entry_of) (pairs structure_tbl))"
    using distinct_names_structure_tbl by (simp add: written_def)
  then show "inj_on (fst \<circ> entry_of) (set (pairs structure_tbl))"
    and "distinct (pairs structure_tbl)"
    by (simp_all add: distinct_map)
qed

lemma fst_entry_of: "(fst \<circ> entry_of) = (\<lambda>(tier, folder). tier @ ''/'' @ folder @ ''.txt'')"
  by (auto simp: entry_of_def path_def)

lemma inj_on_entry_of: "inj_on entry_of (set (pairs structure_tbl))"
  using inj_on_pair_path by (rule inj_on_imageI2)

lemma last_member_structure_tbl:
  "(''F/Ns.txt'', ''- [ ] Placeholder task'') \<in> set (written structure_tbl)"
  by (simp add: written_def pairs_def structure_tbl_def entry_of_def path_def placeholder_def)

text \<open>
  The library cuts a member name at a NUL character and turns the separator of the
  platform into \<open>/\<close>. No name the script writes has a NUL or a backslash, so every name is
  stored as \<^const>\<open>path\<close> built it.
\<close>

lemma names_stored_unchanged:
  "list_all (\<lambda>name. CHR 0x00 \<notin> set name \<and> CHR 0x5C \<notin> set name)
     (map fst (written structure_tbl))"
  unfolding names_structure_tbl by simp

lemma restore_session_file:
  assumes "open_ok env zip_filename"
  shows "files (fst (restore_session env w)) =
           (files w)(zip_filename \<mapsto>
              (fst (write_tiers env structure_tbl \<lparr>entries = [], finalized = False\<rparr>))
                \<lparr>finalized := close_ok env\<rparr>)"
  unfolding restore_session_def using assms by (rule build_files)

lemma restore_session_stdout:
  "stdout (fst (restore_session env w)) =
     (if snd (restore_session env w) = None
      then stdout w @ [''Created restored_flowlist.zip''] else stdout w)"
  unfolding restore_session_def by (simp add: build_stdout zip_filename_def)

lemma restore_session_ok_iff:
  "snd (restore_session env w) = None \<longleftrightarrow>
     open_ok env zip_filename \<and> (\<forall>i < 55. write_ok env i) \<and> close_ok env"
  unfolding restore_session_def build_ok_iff
  by (simp add: length_written length_pairs_structure_tbl)

lemma restore_session_error:
  "snd (restore_session env w) \<noteq> None \<Longrightarrow> snd (restore_session env w) = Some IOFailure"
  unfolding restore_session_def by (rule build_error)

lemma second_run_ok: "snd (restore_session ok_env (fst (restore_session ok_env empty_world))) = None"
  by (simp add: restore_session_ok_iff ok_env_def)

lemma no_open_run: "restore_session no_open_env empty_world = (empty_world, Some IOFailure)"
  by (simp add: restore_session_def build_def ZipFile_w_def no_open_env_def)

lemma disk_full_run:
  "restore_session disk_full_env empty_world =
     (\<lparr>files = [zip_filename \<mapsto>
          \<lparr>entries = [(''S/Learn Earn.txt'', ''- [ ] Placeholder task''),
                      (''S/Productivity.txt'', ''- [ ] Placeholder task''),
                      (''S/Outreach Playbook.txt'', ''- [ ] Placeholder task'')],
            finalized = True\<rparr>],
        stdout = []\<rparr>, Some IOFailure)"
  by (simp add: restore_session_def build_def ZipFile_w_def disk_full_env_def empty_world_def
        structure_tbl_def writestr_def path_def placeholder_def)

lemma S_folders:
  "map_of structure_tbl ''S'' =
     Some [''Learn Earn'', ''Productivity'', ''Outreach Playbook'', ''Motivation'', ''Flow'',
           ''The Grand Slam Offer'', ''Business Research'', ''Financial Urgent'', ''Work'', ''Finances'']"
  by (simp add: structure_tbl_def)

lemma S_members:
  "(''S/Learn Earn.txt'', ''- [ ] Placeholder task'') \<in> set (written structure_tbl)"
  "(''S/Work.txt'', ''- [ ] Placeholder task'') \<in> set (written structure_tbl)"
  by (simp_all add: written_def pairs_def structure_tbl_def entry_of_def path_def placeholder_def)

lemma no_lower_case_member: "''S/learn earn.txt'' \<notin> set (map fst (written structure_tbl))"
  unfolding names_structure_tbl by simp

lemma read_entry_None: "name \<notin> set (map fst (entries zf)) \<Longrightarrow> read_entry zf name = None"
  by (simp add: read_entry_def map_of_eq_None_iff)

text \<open>A table with the single tier S and its two folders, through the same loops.\<close>

lemma scenario_two_folders:
  assumes "snd (build env [(''S'', [''Learn Earn'', ''Work''])] name w) = None"
  shows "files (fst (build env [(''S'', [''Learn Earn'', ''Work''])] name w)) name =
           Some \<lparr>entries = [(''S/Learn Earn.txt'', ''- [ ] Placeholder task''),
                             (''S/Work.txt'', ''- [ ] Placeholder task'')],
                  finalized = True\<rparr>"
  by (simp add: build_ok(1)[OF assms] written_def pairs_def entry_of_def path_def placeholder_def)

section \<open>The claims\<close>

text \<open>
  C1 (as amended). For every run of the script that succeeds, the archive left at the
  destination is closed and holds exactly 10 + 7 + 14 + 14 + 4 + 6 = 55 members, which
  is the sum over the tiers of the table of the length of the tier's folder list.
  Tier S has ten folders, not six, so the count is 55 and not 51.
\<close>

theorem entry_count_default_table:
  assumes "snd (restore_session env w) = None"
  shows "\<exists>zf. files (fst (restore_session env w)) zip_filename = Some zf
           \<and> finalized zf
           \<and> length (entries zf) = 10 + 7 + 14 + 14 + 4 + 6
           \<and> length (entries zf) = 55
           \<and> length (entries zf) = sum_list (map (\<lambda>(tier, folders). length folders) structure_tbl)"
proof -
  have "sum_list (map (\<lambda>(tier, folders). length folders) structure_tbl) = 55"
    by (simp add: structure_tbl_def)
  then show ?thesis
    by (simp add: restore_session_ok[OF assms] length_written length_pairs_structure_tbl)
qed

theorem entry_count_default_table_witness:
  "snd (restore_session ok_env empty_world) = None
   \<and> (\<exists>zf. files (fst (restore_session ok_env empty_world)) zip_filename = Some zf
           \<and> length (entries zf) = 55)"
  using entry_count_default_table[of ok_env empty_world] ok_run by blast

text \<open>
  C1 as it is written fails: the run in which nothing fails leaves an archive whose
  number of members is not 6 + 7 + 14 + 14 + 4 + 6 = 51, and the sum of the lengths of
  the folder lists of the table is not 51 either.
\<close>

theorem entry_count_51_counterexample:
  "snd (restore_session ok_env empty_world) = None
   \<and> map_option (length \<circ> entries) (files (fst (restore_session ok_env empty_world)) zip_filename)
       \<noteq> Some (6 + 7 + 14 + 14 + 4 + 6)
   \<and> sum_list (map (length \<circ> snd) structure_tbl) \<noteq> 6 + 7 + 14 + 14 + 4 + 6"
  by (simp add: ok_run_eval length_written length_pairs_structure_tbl length_pairs[symmetric])

text \<open>
  C10. The folder lists of the table have 10, 7, 14, 14, 4 and 6 names for the tiers
  S, A, B, C, D and F, in this order; the table has 55 (tier, folder) pairs; and the
  archive of every successful run has 55 members.
\<close>

theorem tier_counts:
  "map (\<lambda>(tier, folders). (tier, length folders)) structure_tbl =
     [(''S'', 10), (''A'', 7), (''B'', 14), (''C'', 14), (''D'', 4), (''F'', 6)]
   \<and> length (pairs structure_tbl) = 55
   \<and> (snd (restore_session env w) = None \<longrightarrow>
        map_option (length \<circ> entries) (files (fst (restore_session env w)) zip_filename) = Some 55)"
proof (intro conjI impI)
  show "map (\<lambda>(tier, folders). (tier, length folders)) structure_tbl =
     [(''S'', 10), (''A'', 7), (''B'', 14), (''C'', 14), (''D'', 4), (''F'', 6)]"
    by (simp add: structure_tbl_def)
  show "length (pairs structure_tbl) = 55" by (rule length_pairs_structure_tbl)
  assume "snd (restore_session env w) = None"
  then show "map_option (length \<circ> entries) (files (fst (restore_session env w)) zip_filename) = Some 55"
    by (simp add: restore_session_ok length_written length_pairs_structure_tbl)
qed

theorem tier_counts_witness:
  "snd (restore_session ok_env empty_world) = None
   \<and> map_option (length \<circ> entries) (files (fst (restore_session ok_env empty_world)) zip_filename) = Some 55"
  using tier_counts[of ok_env empty_world] ok_run by blast

text \<open>
  C2. In the archive of a successful run, the members are the images of the
  (tier, folder) pairs of the table, pair by pair; every member's name is
  \<open>tier @ ''/'' @ folder @ ''.txt''\<close> for its pair; the pairs are the folders of the
  tiers of the table; neither the pairs nor the names repeat; and the map from pairs to
  names, like the map from pairs to members, is a bijection from the set of pairs onto
  the set of names (of members) of the archive.
\<close>

theorem paths_bijection:
  assumes "snd (restore_session env w) = None"
  shows "\<exists>zf. files (fst (restore_session env w)) zip_filename = Some zf
     \<and> entries zf = map entry_of (pairs structure_tbl)
     \<and> map fst (entries zf) =
          map (\<lambda>(tier, folder). tier @ ''/'' @ folder @ ''.txt'') (pairs structure_tbl)
     \<and> set (pairs structure_tbl) =
          {(tier, folder). \<exists>folders. (tier, folders) \<in> set structure_tbl \<and> folder \<in> set folders}
     \<and> distinct (pairs structure_tbl)
     \<and> distinct (map fst (entries zf))
     \<and> distinct (entries zf)
     \<and> length (entries zf) = length (pairs structure_tbl)
     \<and> bij_betw (\<lambda>(tier, folder). tier @ ''/'' @ folder @ ''.txt'')
          (set (pairs structure_tbl)) (fst ` set (entries zf))
     \<and> bij_betw entry_of (set (pairs structure_tbl)) (set (entries zf))"
proof -
  let ?zf = "\<lparr>entries = written structure_tbl, finalized = True\<rparr>"
  have f: "files (fst (restore_session env w)) zip_filename = Some ?zf"
    by (simp add: restore_session_ok[OF assms])
  have e: "entries ?zf = map entry_of (pairs structure_tbl)"
    by (simp add: written_def)
  have d: "distinct (map fst (entries ?zf))"
    using distinct_names_structure_tbl by simp
  then have d2: "distinct (entries ?zf)" by (simp add: distinct_map)
  have b1: "bij_betw (fst \<circ> entry_of) (set (pairs structure_tbl)) (fst ` set (entries ?zf))"
    using inj_on_pair_path by (simp add: bij_betw_def written_def image_comp)
  have b2: "bij_betw entry_of (set (pairs structure_tbl)) (set (entries ?zf))"
    using inj_on_entry_of by (simp add: bij_betw_def written_def)
  show ?thesis
    apply (intro exI[of _ ?zf] conjI)
    subgoal by (rule f)
    subgoal by (rule e)
    subgoal by (simp add: names_written)
    subgoal by (rule set_pairs)
    subgoal by (rule distinct_pairs_structure_tbl)
    subgoal by (rule d)
    subgoal by (rule d2)
    subgoal by (simp add: length_written)
    subgoal using b1 by (simp only: fst_entry_of)
    subgoal by (rule b2)
    done
qed

theorem paths_bijection_witness:
  "snd (restore_session ok_env empty_world) = None
   \<and> (\<exists>zf. files (fst (restore_session ok_env empty_world)) zip_filename = Some zf
         \<and> distinct (map fst (entries zf))
         \<and> length (entries zf) = length (pairs structure_tbl))"
  using paths_bijection[of ok_env empty_world] ok_run by blast

text \<open>
  C5. Two different (tier, folder) pairs of the table never give the same path; the
  list of paths has no repetition; no tier's folder list has a repeated name; and no
  tier name occurs twice.
\<close>

theorem paths_unique:
  "(\<forall>p \<in> set (pairs structure_tbl). \<forall>q \<in> set (pairs structure_tbl).
       p \<noteq> q \<longrightarrow> path (fst p) (snd p) \<noteq> path (fst q) (snd q))
   \<and> distinct (map (\<lambda>(tier, folder). path tier folder) (pairs structure_tbl))
   \<and> (\<forall>(tier, folders) \<in> set structure_tbl. distinct folders)
   \<and> distinct (map fst structure_tbl)"
proof (intro conjI)
  have eq: "fst \<circ> entry_of = (\<lambda>p. path (fst p) (snd p))"
    by (auto simp: entry_of_def)
  show "\<forall>p \<in> set (pairs structure_tbl). \<forall>q \<in> set (pairs structure_tbl).
       p \<noteq> q \<longrightarrow> path (fst p) (snd p) \<noteq> path (fst q) (snd q)"
    using inj_on_pair_path unfolding eq inj_on_def by blast
  have "map (\<lambda>(tier, folder). path tier folder) (pairs structure_tbl) = map fst (written structure_tbl)"
    by (simp add: written_def entry_of_def case_prod_beta comp_def)
  then show "distinct (map (\<lambda>(tier, folder). path tier folder) (pairs structure_tbl))"
    using distinct_names_structure_tbl by simp
  show "\<forall>(tier, folders) \<in> set structure_tbl. distinct folders"
    by (simp add: structure_tbl_def)
  show "distinct (map fst structure_tbl)"
    by (simp add: structure_tbl_def)
qed

theorem paths_unique_witness:
  "(''S'', ''Work'') \<in> set (pairs structure_tbl) \<and> (''A'', ''Research'') \<in> set (pairs structure_tbl)
   \<and> (''S'', ''Work'') \<noteq> (''A'', ''Research'')
   \<and> path ''S'' ''Work'' \<noteq> path ''A'' ''Research''
   \<and> (''F'', [''None'', ''Shopping & Errands'', ''NS Projects & Social'', ''Content Consumption'',
         ''Leisure'', ''Ns'']) \<in> set structure_tbl
   \<and> distinct [''None'', ''Shopping & Errands'', ''NS Projects & Social'', ''Content Consumption'',
         ''Leisure'', ''Ns'']"
proof -
  have m: "(''S'', ''Work'') \<in> set (pairs structure_tbl)" "(''A'', ''Research'') \<in> set (pairs structure_tbl)"
    by (simp_all add: pairs_def structure_tbl_def)
  have t: "(''F'', [''None'', ''Shopping & Errands'', ''NS Projects & Social'', ''Content Consumption'',
         ''Leisure'', ''Ns'']) \<in> set structure_tbl"
    by (simp add: structure_tbl_def)
  have n: "(''S'', ''Work'') \<noteq> (''A'', ''Research'')" by simp
  from paths_unique m n have "path ''S'' ''Work'' \<noteq> path ''A'' ''Research''" by fastforce
  moreover from paths_unique t have "distinct [''None'', ''Shopping & Errands'', ''NS Projects & Social'', ''Content Consumption'',
         ''Leisure'', ''Ns'']" by fastforce
  ultimately show ?thesis using m t n by blast
qed

text \<open>
  C3. Whenever the destination could be opened, whether or not the run then succeeds,
  every member of the archive left there holds exactly \<open>- [ ] Placeholder task\<close>, which
  does not end in a newline. The archive is closed exactly when closing went through,
  and from a closed archive reading any member back by its name gives that text. A
  successful run leaves a closed archive of 55 such members.
\<close>

theorem entry_content:
  assumes "open_ok env zip_filename"
  shows "\<exists>zf. files (fst (restore_session env w)) zip_filename = Some zf
           \<and> finalized zf = close_ok env
           \<and> (\<forall>e \<in> set (entries zf).
                 snd e = ''- [ ] Placeholder task''
               \<and> last (snd e) \<noteq> CHR 0x0A
               \<and> (finalized zf \<longrightarrow> read_entry zf (fst e) = Some ''- [ ] Placeholder task''))
           \<and> (snd (restore_session env w) = None \<longrightarrow> finalized zf \<and> length (entries zf) = 55)"
proof -
  define zf where "zf = (fst (write_tiers env structure_tbl \<lparr>entries = [], finalized = False\<rparr>))
                          \<lparr>finalized := close_ok env\<rparr>"
  have 1: "files (fst (restore_session env w)) zip_filename = Some zf"
    by (simp add: restore_session_def build_files[OF assms] zf_def)
  have c: "finalized zf = close_ok env" by (simp add: zf_def)
  have pre: "prefix (entries zf) (written structure_tbl)"
    using write_tiers_is_prefix[of env structure_tbl] by (simp add: zf_def)
  have all: "\<forall>e \<in> set (entries zf). snd e = placeholder"
  proof
    fix e assume "e \<in> set (entries zf)"
    with pre have "e \<in> set (written structure_tbl)" by (auto dest: set_mono_prefix)
    then show "snd e = placeholder" by (rule data_written)
  qed
  have p: "placeholder = ''- [ ] Placeholder task''" "last placeholder \<noteq> CHR 0x0A"
    by (simp_all add: placeholder_def)
  have 2: "\<forall>e \<in> set (entries zf). snd e = ''- [ ] Placeholder task''
               \<and> last (snd e) \<noteq> CHR 0x0A
               \<and> (finalized zf \<longrightarrow> read_entry zf (fst e) = Some ''- [ ] Placeholder task'')"
  proof
    fix e assume e: "e \<in> set (entries zf)"
    from all e have s: "snd e = placeholder" by (rule bspec)
    have r: "finalized zf \<longrightarrow> read_entry zf (fst e) = Some placeholder"
    proof
      assume "finalized zf"
      with all e show "read_entry zf (fst e) = Some placeholder"
        by (rule read_entry_placeholder)
    qed
    show "snd e = ''- [ ] Placeholder task''
               \<and> last (snd e) \<noteq> CHR 0x0A
               \<and> (finalized zf \<longrightarrow> read_entry zf (fst e) = Some ''- [ ] Placeholder task'')"
      unfolding s using r p by (simp only: simp_thms)
  qed
  have 3: "snd (restore_session env w) = None \<longrightarrow> finalized zf \<and> length (entries zf) = 55"
  proof
    assume ok: "snd (restore_session env w) = None"
    have "files (fst (restore_session env w)) zip_filename =
            Some \<lparr>entries = written structure_tbl, finalized = True\<rparr>"
      by (simp add: restore_session_ok[OF ok])
    with 1 have "zf = \<lparr>entries = written structure_tbl, finalized = True\<rparr>" by simp
    then show "finalized zf \<and> length (entries zf) = 55"
      by (simp add: length_written length_pairs_structure_tbl)
  qed
  from 1 c 2 3 show ?thesis by (intro exI[of _ zf] conjI)
qed

theorem entry_content_witness:
  "open_ok ok_env zip_filename
   \<and> (\<exists>zf. files (fst (restore_session ok_env empty_world)) zip_filename = Some zf
         \<and> finalized zf
         \<and> (''F/Ns.txt'', ''- [ ] Placeholder task'') \<in> set (entries zf)
         \<and> read_entry zf ''F/Ns.txt'' = Some ''- [ ] Placeholder task''
         \<and> length (entries zf) = 55)"
proof -
  have o: "open_ok ok_env zip_filename" by (simp add: ok_env_def)
  let ?zf = "\<lparr>entries = written structure_tbl, finalized = True\<rparr>"
  have f: "files (fst (restore_session ok_env empty_world)) zip_filename = Some ?zf"
    by (simp add: restore_session_ok[OF ok_run])
  have fin: "finalized ?zf" by simp
  from entry_content[OF o, of empty_world] ok_run f
  have a: "\<forall>e \<in> set (entries ?zf). snd e = ''- [ ] Placeholder task''
          \<and> last (snd e) \<noteq> CHR 0x0A
          \<and> (finalized ?zf \<longrightarrow> read_entry ?zf (fst e) = Some ''- [ ] Placeholder task'')"
    and l: "length (entries ?zf) = 55"
    by simp_all
  have m: "(''F/Ns.txt'', ''- [ ] Placeholder task'') \<in> set (entries ?zf)"
    using last_member_structure_tbl by simp
  from a m have "snd (''F/Ns.txt'', ''- [ ] Placeholder task'') = ''- [ ] Placeholder task''
          \<and> last (snd (''F/Ns.txt'', ''- [ ] Placeholder task'')) \<noteq> CHR 0x0A
          \<and> (finalized ?zf \<longrightarrow>
               read_entry ?zf (fst (''F/Ns.txt'', ''- [ ] Placeholder task'')) = Some ''- [ ] Placeholder task'')"
    by (rule bspec)
  with fin have r: "read_entry ?zf ''F/Ns.txt'' = Some ''- [ ] Placeholder task''"
    by (simp only: fst_conv simp_thms)
  from o f fin m r l show ?thesis by (intro conjI exI[of _ ?zf])
qed

text \<open>
  C4. The members are written in the order of the table: tier by tier in the order of
  the table and, within a tier, folder by folder in the order of its list, one member
  \<open>(tier/folder.txt, - [ ] Placeholder task)\<close> each. Whenever the destination could be
  opened, the archive left there holds an initial segment of this sequence, and after a
  successful run it holds the whole sequence and nothing else.
\<close>

theorem entries_in_table_order:
  assumes "open_ok env zip_filename"
  shows "\<exists>zf. files (fst (restore_session env w)) zip_filename = Some zf
     \<and> prefix (entries zf)
          (concat (map (\<lambda>(tier, folders).
             map (\<lambda>folder. (tier @ ''/'' @ folder @ ''.txt'', ''- [ ] Placeholder task'')) folders)
             structure_tbl))
     \<and> (snd (restore_session env w) = None \<longrightarrow>
          entries zf =
            concat (map (\<lambda>(tier, folders).
              map (\<lambda>folder. (tier @ ''/'' @ folder @ ''.txt'', ''- [ ] Placeholder task'')) folders)
              structure_tbl))"
proof -
  define zf where "zf = (fst (write_tiers env structure_tbl \<lparr>entries = [], finalized = False\<rparr>))
                          \<lparr>finalized := close_ok env\<rparr>"
  have 1: "files (fst (restore_session env w)) zip_filename = Some zf"
    by (simp add: restore_session_file[OF assms] zf_def)
  have 2: "prefix (entries zf) (written structure_tbl)"
    using write_tiers_is_prefix[of env structure_tbl] by (simp add: zf_def)
  have 3: "snd (restore_session env w) = None \<longrightarrow> entries zf = written structure_tbl"
  proof
    assume ok: "snd (restore_session env w) = None"
    have "files (fst (restore_session env w)) zip_filename =
            Some \<lparr>entries = written structure_tbl, finalized = True\<rparr>"
      by (simp add: restore_session_ok[OF ok])
    with 1 have "zf = \<lparr>entries = written structure_tbl, finalized = True\<rparr>" by simp
    then show "entries zf = written structure_tbl" by simp
  qed
  from 1 2 3 show ?thesis
    unfolding written_concat by (intro exI[of _ zf] conjI)
qed

theorem entries_in_table_order_witness:
  "open_ok ok_env zip_filename \<and> snd (restore_session ok_env empty_world) = None
   \<and> (\<exists>zf. files (fst (restore_session ok_env empty_world)) zip_filename = Some zf
        \<and> take 2 (entries zf) = [(''S/Learn Earn.txt'', ''- [ ] Placeholder task''),
                                   (''S/Productivity.txt'', ''- [ ] Placeholder task'')]
        \<and> entries zf ! 10 = (''A/Next-Level Acceleration.txt'', ''- [ ] Placeholder task'')
        \<and> entries zf ! 54 = (''F/Ns.txt'', ''- [ ] Placeholder task''))"
proof -
  have o: "open_ok ok_env zip_filename" by (simp add: ok_env_def)
  from entries_in_table_order[OF o, of empty_world] ok_run obtain zf where
    zf: "files (fst (restore_session ok_env empty_world)) zip_filename = Some zf"
     "entries zf =
            concat (map (\<lambda>(tier, folders).
              map (\<lambda>folder. (tier @ ''/'' @ folder @ ''.txt'', ''- [ ] Placeholder task'')) folders)
              structure_tbl)"
    by (elim exE conjE impE) simp_all
  have "take 2 (entries zf) = [(''S/Learn Earn.txt'', ''- [ ] Placeholder task''),
                                   (''S/Productivity.txt'', ''- [ ] Placeholder task'')]"
    unfolding zf(2) by (simp add: structure_tbl_def)
  moreover have "entries zf ! 10 = (''A/Next-Level Acceleration.txt'', ''- [ ] Placeholder task'')"
    unfolding zf(2) by (simp add: structure_tbl_def)
  moreover have "entries zf ! 54 = (''F/Ns.txt'', ''- [ ] Placeholder task'')"
    unfolding zf(2) by (simp add: structure_tbl_def)
  ultimately show ?thesis using o ok_run zf(1) by (intro conjI exI[of _ zf])
qed

text \<open>
  C6. Tier S of the table maps to a folder list that contains \<open>Learn Earn\<close> and \<open>Work\<close>,
  and the archive of a successful run has the members \<open>S/Learn Earn.txt\<close> and
  \<open>S/Work.txt\<close>, each holding \<open>- [ ] Placeholder task\<close> (also when read back by name),
  and no member named \<open>S/learn earn.txt\<close>: names are compared character by character.
\<close>

theorem scenario_tier_S:
  assumes "snd (restore_session env w) = None"
  shows "(\<exists>folders. map_of structure_tbl ''S'' = Some folders
            \<and> ''Learn Earn'' \<in> set folders \<and> ''Work'' \<in> set folders)
     \<and> (\<exists>zf. files (fst (restore_session env w)) zip_filename = Some zf
            \<and> (''S/Learn Earn.txt'', ''- [ ] Placeholder task'') \<in> set (entries zf)
            \<and> (''S/Work.txt'', ''- [ ] Placeholder task'') \<in> set (entries zf)
            \<and> read_entry zf ''S/Learn Earn.txt'' = Some ''- [ ] Placeholder task''
            \<and> read_entry zf ''S/Work.txt'' = Some ''- [ ] Placeholder task''
            \<and> ''S/learn earn.txt'' \<notin> set (map fst (entries zf))
            \<and> read_entry zf ''S/learn earn.txt'' = None)"
proof
  show "\<exists>folders. map_of structure_tbl ''S'' = Some folders
            \<and> ''Learn Earn'' \<in> set folders \<and> ''Work'' \<in> set folders"
    unfolding S_folders by simp
  let ?zf = "\<lparr>entries = written structure_tbl, finalized = True\<rparr>"
  have f: "files (fst (restore_session env w)) zip_filename = Some ?zf"
    by (simp add: restore_session_ok[OF assms])
  have all: "\<forall>e \<in> set (entries ?zf). snd e = placeholder"
    by (simp add: data_written)
  have m1: "(''S/Learn Earn.txt'', ''- [ ] Placeholder task'') \<in> set (entries ?zf)"
    and m2: "(''S/Work.txt'', ''- [ ] Placeholder task'') \<in> set (entries ?zf)"
    using S_members by simp_all
  have fin: "finalized ?zf" by simp
  have r1: "read_entry ?zf ''S/Learn Earn.txt'' = Some ''- [ ] Placeholder task''"
    using read_entry_placeholder[OF all m1 fin] by (simp add: placeholder_def)
  have r2: "read_entry ?zf ''S/Work.txt'' = Some ''- [ ] Placeholder task''"
    using read_entry_placeholder[OF all m2 fin] by (simp add: placeholder_def)
  have n: "''S/learn earn.txt'' \<notin> set (map fst (entries ?zf))"
    using no_lower_case_member by simp
  from n have r3: "read_entry ?zf ''S/learn earn.txt'' = None" by (rule read_entry_None)
  from f m1 m2 r1 r2 n r3
  show "\<exists>zf. files (fst (restore_session env w)) zip_filename = Some zf
            \<and> (''S/Learn Earn.txt'', ''- [ ] Placeholder task'') \<in> set (entries zf)
            \<and> (''S/Work.txt'', ''- [ ] Placeholder task'') \<in> set (entries zf)
            \<and> read_entry zf ''S/Learn Earn.txt'' = Some ''- [ ] Placeholder task''
            \<and> read_entry zf ''S/Work.txt'' = Some ''- [ ] Placeholder task''
            \<and> ''S/learn earn.txt'' \<notin> set (map fst (entries zf))
            \<and> read_entry zf ''S/learn earn.txt'' = None"
    by (intro exI[of _ ?zf] conjI)
qed

theorem scenario_tier_S_witness:
  "snd (restore_session ok_env empty_world) = None
   \<and> (\<exists>zf. files (fst (restore_session ok_env empty_world)) zip_filename = Some zf
            \<and> (''S/Learn Earn.txt'', ''- [ ] Placeholder task'') \<in> set (entries zf)
            \<and> (''S/Work.txt'', ''- [ ] Placeholder task'') \<in> set (entries zf)
            \<and> read_entry zf ''S/learn earn.txt'' = None)"
proof -
  from scenario_tier_S[OF ok_run] obtain zf where
    "files (fst (restore_session ok_env empty_world)) zip_filename = Some zf"
    "(''S/Learn Earn.txt'', ''- [ ] Placeholder task'') \<in> set (entries zf)"
    "(''S/Work.txt'', ''- [ ] Placeholder task'') \<in> set (entries zf)"
    "read_entry zf ''S/learn earn.txt'' = None"
    by (elim exE conjE)
  with ok_run show ?thesis by (intro conjI exI[of _ zf])
qed

text \<open>
  C7. Two successful runs, whatever the worlds they start in and whatever the operating
  system allowed, leave the same archive at the destination: the same members with the
  same data in the same order. In particular a second run on the world the first one
  left changes no file.
\<close>

theorem rerun_same_archive:
  assumes "snd (restore_session e1 w1) = None" and "snd (restore_session e2 w2) = None"
  shows "files (fst (restore_session e1 w1)) zip_filename
           = files (fst (restore_session e2 w2)) zip_filename
       \<and> (w2 = fst (restore_session e1 w1) \<longrightarrow>
            files (fst (restore_session e2 w2)) = files w2)"
proof
  show "files (fst (restore_session e1 w1)) zip_filename
           = files (fst (restore_session e2 w2)) zip_filename"
    by (simp add: restore_session_ok[OF assms(1)] restore_session_ok[OF assms(2)])
  show "w2 = fst (restore_session e1 w1) \<longrightarrow> files (fst (restore_session e2 w2)) = files w2"
  proof
    assume "w2 = fst (restore_session e1 w1)"
    then have "files w2 zip_filename = Some \<lparr>entries = written structure_tbl, finalized = True\<rparr>"
      by (simp add: restore_session_ok[OF assms(1)])
    then show "files (fst (restore_session e2 w2)) = files w2"
      by (simp add: restore_session_ok[OF assms(2)] map_upd_triv)
  qed
qed

theorem rerun_same_archive_witness:
  "snd (restore_session ok_env empty_world) = None
   \<and> snd (restore_session ok_env (fst (restore_session ok_env empty_world))) = None
   \<and> files (fst (restore_session ok_env (fst (restore_session ok_env empty_world))))
       = files (fst (restore_session ok_env empty_world))"
  using rerun_same_archive[OF ok_run second_run_ok] ok_run second_run_ok by simp

text \<open>
  C8. When the destination cannot be opened, or one of the 55 writes fails, the run ends
  with \<open>IOFailure\<close> and prints nothing; when the destination cannot be opened the world
  is left as it was. A line is printed only by a run that ends without error, the line
  is \<open>Created restored_flowlist.zip\<close>, and the archive is then closed and complete.
\<close>

theorem failure_prints_nothing:
  "(\<not> open_ok env zip_filename \<or> (\<exists>i < 55. \<not> write_ok env i) \<longrightarrow>
       snd (restore_session env w) = Some IOFailure
     \<and> stdout (fst (restore_session env w)) = stdout w)
   \<and> (\<not> open_ok env zip_filename \<longrightarrow> fst (restore_session env w) = w)
   \<and> (stdout (fst (restore_session env w)) \<noteq> stdout w \<longrightarrow>
         snd (restore_session env w) = None
       \<and> stdout (fst (restore_session env w)) = stdout w @ [''Created restored_flowlist.zip'']
       \<and> (\<exists>zf. files (fst (restore_session env w)) zip_filename = Some zf
              \<and> finalized zf \<and> length (entries zf) = 55))"
proof (intro conjI impI)
  assume a: "\<not> open_ok env zip_filename \<or> (\<exists>i < 55. \<not> write_ok env i)"
  then have n: "snd (restore_session env w) \<noteq> None"
    unfolding restore_session_ok_iff by blast
  then show "snd (restore_session env w) = Some IOFailure" by (rule restore_session_error)
  from n show "stdout (fst (restore_session env w)) = stdout w"
    by (simp add: restore_session_stdout)
next
  assume "\<not> open_ok env zip_filename"
  then show "fst (restore_session env w) = w"
    by (simp add: restore_session_def build_open_fails)
next
  assume a: "stdout (fst (restore_session env w)) \<noteq> stdout w"
  then show ok: "snd (restore_session env w) = None"
    by (simp add: restore_session_stdout split: if_splits)
  then show "stdout (fst (restore_session env w)) = stdout w @ [''Created restored_flowlist.zip'']"
    by (simp add: restore_session_stdout)
  have "files (fst (restore_session env w)) zip_filename =
          Some \<lparr>entries = written structure_tbl, finalized = True\<rparr>"
    by (simp add: restore_session_ok[OF ok])
  then show "\<exists>zf. files (fst (restore_session env w)) zip_filename = Some zf
              \<and> finalized zf \<and> length (entries zf) = 55"
    by (simp add: length_written length_pairs_structure_tbl)
qed

theorem failure_prints_nothing_witness:
  "\<not> open_ok no_open_env zip_filename
   \<and> snd (restore_session no_open_env empty_world) = Some IOFailure
   \<and> fst (restore_session no_open_env empty_world) = empty_world
   \<and> \<not> write_ok disk_full_env 3
   \<and> snd (restore_session disk_full_env empty_world) = Some IOFailure
   \<and> stdout (fst (restore_session disk_full_env empty_world)) = stdout empty_world
   \<and> stdout (fst (restore_session ok_env empty_world)) \<noteq> stdout empty_world
   \<and> snd (restore_session ok_env empty_world) = None"
proof -
  have 1: "\<not> open_ok no_open_env zip_filename" by (simp add: no_open_env_def)
  have 2: "\<not> write_ok disk_full_env 3" by (simp add: disk_full_env_def)
  then have 3: "\<exists>i < 55. \<not> write_ok disk_full_env i" by (intro exI[of _ 3]) simp
  have 4: "stdout (fst (restore_session ok_env empty_world)) \<noteq> stdout empty_world"
    unfolding ok_run_eval by (simp add: empty_world_def)
  from failure_prints_nothing[of no_open_env empty_world] 1
  have a: "snd (restore_session no_open_env empty_world) = Some IOFailure"
    "fst (restore_session no_open_env empty_world) = empty_world" by simp_all
  from failure_prints_nothing[of disk_full_env empty_world] 3
  have b: "snd (restore_session disk_full_env empty_world) = Some IOFailure"
    "stdout (fst (restore_session disk_full_env empty_world)) = stdout empty_world" by simp_all
  from failure_prints_nothing[of ok_env empty_world] 4
  have c: "snd (restore_session ok_env empty_world) = None" by simp
  from 1 2 4 a b c show ?thesis by (intro conjI)
qed

text \<open>
  C9. The destination is the literal \<open>restored_flowlist.zip\<close>: no other file is
  touched by any run, a successful run leaves a file of that name and appends exactly the
  one line \<open>Created restored_flowlist.zip\<close> to the output, and the world a successful run
  leaves depends on nothing but the world it started in.
\<close>

theorem fixed_output_name:
  "zip_filename = ''restored_flowlist.zip''
   \<and> (snd (restore_session env w) = None \<longrightarrow>
         stdout (fst (restore_session env w)) = stdout w @ [''Created restored_flowlist.zip'']
       \<and> files (fst (restore_session env w)) ''restored_flowlist.zip'' \<noteq> None)
   \<and> (\<forall>name. name \<noteq> ''restored_flowlist.zip'' \<longrightarrow>
         files (fst (restore_session env w)) name = files w name)
   \<and> (snd (restore_session env w) = None \<and> snd (restore_session env' w) = None \<longrightarrow>
         fst (restore_session env w) = fst (restore_session env' w))"
proof (intro conjI impI allI)
  show "zip_filename = ''restored_flowlist.zip''" by (rule zip_filename_def)
next
  assume ok: "snd (restore_session env w) = None"
  then show "stdout (fst (restore_session env w)) = stdout w @ [''Created restored_flowlist.zip'']"
    by (simp add: restore_session_stdout)
  show "files (fst (restore_session env w)) ''restored_flowlist.zip'' \<noteq> None"
    by (simp add: restore_session_ok[OF ok] zip_filename_def)
next
  fix name :: string assume n: "name \<noteq> ''restored_flowlist.zip''"
  show "files (fst (restore_session env w)) name = files w name"
  proof (cases "open_ok env zip_filename")
    case True
    from n show ?thesis by (simp add: restore_session_file[OF True] zip_filename_def)
  next
    case False
    then show ?thesis by (simp add: restore_session_def build_open_fails)
  qed
next
  assume "snd (restore_session env w) = None \<and> snd (restore_session env' w) = None"
  then show "fst (restore_session env w) = fst (restore_session env' w)"
    by (simp add: restore_session_ok)
qed

theorem fixed_output_name_witness:
  "snd (restore_session ok_env empty_world) = None
   \<and> stdout (fst (restore_session ok_env empty_world)) = [''Created restored_flowlist.zip'']
   \<and> files (fst (restore_session ok_env empty_world)) ''restored_flowlist.zip'' \<noteq> None
   \<and> ''other.zip'' \<noteq> ''restored_flowlist.zip''
   \<and> files (fst (restore_session ok_env empty_world)) ''other.zip'' = None"
proof -
  note t = fixed_output_name[of ok_env empty_world ok_env]
  have n: "''other.zip'' \<noteq> ''restored_flowlist.zip''" by simp
  from t[THEN conjunct2, THEN conjunct1, rule_format, OF ok_run]
  have a: "stdout (fst (restore_session ok_env empty_world)) = [''Created restored_flowlist.zip'']"
    and b: "files (fst (restore_session ok_env empty_world)) ''restored_flowlist.zip'' \<noteq> None"
    by (simp_all add: empty_world_def)
  from t[THEN conjunct2, THEN conjunct2, THEN conjunct1, rule_format, OF n]
  have c: "files (fst (restore_session ok_env empty_world)) ''other.zip'' = None"
    by (simp add: empty_world_def)
  from ok_run a b n c show ?thesis by (intro conjI)
qed

end
